theory Spec2Isabelle
  imports Main
begin

section \<open>The application states\<close>

text \<open>
  \<^verbatim>\<open>RemoteDesktopClient.STATE\<close> is a closed table of seven string constants, used as an
  enumeration; each constant is one constructor.
\<close>

datatype app_state =
  IDLE | CONNECTING | WAITING | CONNECTED | DISCONNECTED | CLIENT_ERROR | TUNNEL_ERROR

section \<open>The two channels\<close>

text \<open>
  Modelled from the spec: the classes \<^verbatim>\<open>BehaviorSubject\<close> and \<^verbatim>\<open>ReplaySubject\<close> come from the
  rxjs library, whose code is not among the sources. Section 4.4 and the design notes
  describe a channel as a capability pair "publish, subscribe with immediate replay of the
  last N values": multicast, ordered, a late subscriber is replayed the last N values. The
  record keeps the replay buffer (oldest first), the replay depth, and for every subscriber,
  in subscription order, the values delivered to it so far.
\<close>

record 'a subject =
  buffer :: "'a list"
  bufferSize :: nat
  observers :: "'a list list"

text \<open>
  Modelled from the spec: \<^verbatim>\<open>new BehaviorSubject(v)\<close>, a channel of replay depth 1 that begins
  pre-populated with \<open>v\<close>.
\<close>

definition BehaviorSubject :: "'a \<Rightarrow> 'a subject" where
  "BehaviorSubject v = \<lparr>buffer = [v], bufferSize = 1, observers = []\<rparr>"

text \<open>
  Modelled from the spec: \<^verbatim>\<open>new ReplaySubject(n)\<close>, a channel of replay depth \<open>n\<close> that
  starts empty.
\<close>

definition ReplaySubject :: "nat \<Rightarrow> 'a subject" where
  "ReplaySubject n = \<lparr>buffer = [], bufferSize = n, observers = []\<rparr>"

text \<open>
  Modelled from the spec: \<^verbatim>\<open>subject.next(v)\<close> delivers \<open>v\<close> to every current subscriber and
  keeps the last \<open>bufferSize\<close> values for replay.
\<close>

definition subject_next :: "'a \<Rightarrow> 'a subject \<Rightarrow> 'a subject" where
  "subject_next v s =
     s\<lparr>buffer := drop (Suc (length (buffer s)) - bufferSize s) (buffer s @ [v]),
       observers := map (\<lambda>received. received @ [v]) (observers s)\<rparr>"

text \<open>
  Modelled from the spec: \<^verbatim>\<open>subject.subscribe(observer)\<close> adds a subscriber, which is
  immediately delivered the replay buffer.
\<close>

definition subscribe :: "'a subject \<Rightarrow> 'a subject" where
  "subscribe s = s\<lparr>observers := observers s @ [buffer s]\<rparr>"

text \<open>What the newest subscriber has been delivered.\<close>

definition newest_received :: "'a subject \<Rightarrow> 'a list" where
  "newest_received s = (case rev (observers s) of [] \<Rightarrow> [] | received # _ \<Rightarrow> received)"

section \<open>Values, objects and the query string\<close>

text \<open>
  The values an options object holds: \<^verbatim>\<open>null\<close>, a number that is an integer (the screen's
  width and height, numeric options) or a string. None of them can be called as a function.
\<close>

datatype js_value = JNull | JNum int | JStr string

text \<open>
  An object is the list of its own properties in creation order. JavaScript enumerates the
  own keys of an object (in a \<^verbatim>\<open>for ... in\<close> loop, in a spread) with the array indices
  first, in ascending numeric order, and then the other string keys in creation order. An
  array index is the canonical decimal numeral of a number below \<open>2^32 - 1\<close>.
\<close>

type_synonym js_object = "(string \<times> js_value) list"

definition is_digit :: "char \<Rightarrow> bool" where
  "is_digit ch = (48 \<le> (of_char ch :: int) \<and> (of_char ch :: int) \<le> 57)"

definition decimal_value :: "string \<Rightarrow> int" where
  "decimal_value s = foldl (\<lambda>n ch. 10 * n + ((of_char ch :: int) - 48)) 0 s"

definition is_array_index :: "string \<Rightarrow> bool" where
  "is_array_index s =
     (s \<noteq> [] \<and> list_all is_digit s \<and> (s = ''0'' \<or> hd s \<noteq> CHR ''0'') \<and>
      decimal_value s < 2 ^ 32 - 1)"

definition own_entries :: "js_object \<Rightarrow> js_object" where
  "own_entries obj =
     sort_key (\<lambda>p. decimal_value (fst p)) (filter (\<lambda>p. is_array_index (fst p)) obj) @
     filter (\<lambda>p. \<not> is_array_index (fst p)) obj"

text \<open>
  Writing a property: an existing key keeps its place and takes the new value, a new key is
  created last.
\<close>

fun obj_set :: "string \<Rightarrow> 'v \<Rightarrow> (string \<times> 'v) list \<Rightarrow> (string \<times> 'v) list" where
  "obj_set k v [] = [(k, v)]"
| "obj_set k v ((k', v') # ps) =
     (if k = k' then (k, v) # ps else (k', v') # obj_set k v ps)"

text \<open>The spread \<^verbatim>\<open>{ ...target, ...source }\<close>: each own property of the source is written.\<close>

definition obj_spread :: "js_object \<Rightarrow> js_object \<Rightarrow> js_object" where
  "obj_spread source target = fold (\<lambda>p. obj_set (fst p) (snd p)) (own_entries source) target"

text \<open>
  The decimal numeral of an integer. The language's conversion of a number to a string is a
  built-in that the sources do not contain; the functions below take it as the parameter
  \<open>toStr\<close>. It writes an integer of magnitude below \<open>10^21\<close> as this numeral.
\<close>

fun show_nat :: "nat \<Rightarrow> string" where
  "show_nat n =
     (if n < 10 then [char_of (48 + int n)]
      else show_nat (n div 10) @ [char_of (48 + int (n mod 10))])"

declare show_nat.simps [simp del]

definition show_int :: "int \<Rightarrow> string" where
  "show_int i = (if i < 0 then CHR ''-'' # show_nat (nat (- i)) else show_nat (nat i))"

text \<open>
  The class \<^verbatim>\<open>URLSearchParams\<close> comes from @angular/http, whose code is not among the
  sources; the definitions follow what the library does. \<^verbatim>\<open>set(key, value)\<close> removes the key
  when the value is \<^verbatim>\<open>null\<close> (or \<^verbatim>\<open>undefined\<close>); otherwise it stores the value under the key,
  which keeps its place if it is there already and comes last if it is new.
  \<^verbatim>\<open>toString()\<close> writes the entries in this order as \<^verbatim>\<open>key=value\<close>, joined by \<^verbatim>\<open>&\<close>. Keys and
  values are encoded by the library's \<^verbatim>\<open>standardEncoding\<close>: \<^verbatim>\<open>encodeURIComponent\<close>, which
  leaves letters, digits and \<^verbatim>\<open>- _ . ! ~ * ' ( )\<close> as they are and writes each other byte as
  \<^verbatim>\<open>%\<close> and two upper-case hexadecimal digits, followed by the replacement of \<^verbatim>\<open>%40 %3A %24
  %2C %3B %2B %3D %3F %2F\<close> by \<^verbatim>\<open>@ : $ , ; + = ? /\<close>. Every \<^verbatim>\<open>%\<close> in the output of
  \<^verbatim>\<open>encodeURIComponent\<close> starts the code of one byte, so the two steps together leave these
  nine characters as they are, too.
\<close>

type_synonym url_search_params = "(string \<times> string) list"

definition uri_unreserved :: "char \<Rightarrow> bool" where
  "uri_unreserved ch =
     (let n = (of_char ch :: int) in
        (48 \<le> n \<and> n \<le> 57) \<or> (65 \<le> n \<and> n \<le> 90) \<or> (97 \<le> n \<and> n \<le> 122) \<or>
        ch \<in> set ''-_.!~*()'' \<or> n = 39)"

definition hex_digit :: "int \<Rightarrow> char" where
  "hex_digit n = (if n < 10 then char_of (48 + n) else char_of (55 + n))"

definition standardEncoding :: "string \<Rightarrow> string" where
  "standardEncoding s =
     concat (map (\<lambda>ch. if uri_unreserved ch \<or> ch \<in> set ''@:$,;+=?/'' then [ch]
                        else [CHR ''%'', hex_digit ((of_char ch :: int) div 16),
                              hex_digit ((of_char ch :: int) mod 16)]) s)"

definition params_set ::
  "(int \<Rightarrow> string) \<Rightarrow> string \<Rightarrow> js_value \<Rightarrow> url_search_params \<Rightarrow> url_search_params" where
  "params_set toStr k v ps =
     (case v of
        JNull \<Rightarrow> filter (\<lambda>p. fst p \<noteq> k) ps
      | JNum i \<Rightarrow> obj_set k (toStr i) ps
      | JStr s \<Rightarrow> obj_set k s ps)"

fun join_amp :: "string list \<Rightarrow> string" where
  "join_amp [] = []"
| "join_amp [x] = x"
| "join_amp (x # y # zs) = x @ ''&'' @ join_amp (y # zs)"

definition params_toString :: "url_search_params \<Rightarrow> string" where
  "params_toString ps =
     join_amp (map (\<lambda>p. standardEncoding (fst p) @ ''='' @ standardEncoding (snd p)) ps)"

text \<open>Whether one string occurs in another as a contiguous part.\<close>

fun starts_with :: "string \<Rightarrow> string \<Rightarrow> bool" where
  "starts_with [] s = True"
| "starts_with (x # xs) [] = False"
| "starts_with (x # xs) (y # ys) = (x = y \<and> starts_with xs ys)"

fun contains :: "string \<Rightarrow> string \<Rightarrow> bool" where
  "contains part [] = (part = [])"
| "contains part (y # ys) = (starts_with part (y # ys) \<or> contains part ys)"

section \<open>The client object\<close>

text \<open>
  An exception is a value: a function that can raise returns the error, if any, together
  with the object as the exception leaves it.
\<close>

datatype error = TypeError

text \<open>The status object of an error callback: a numeric code and a message.\<close>

datatype status = Status int string

text \<open>
  The observable effects of the class are the calls into the protocol engine and the
  publications on the two channels. The field \<open>effects\<close> of the client logs them in the
  order in which the code performs them.
\<close>

datatype effect =
    StateNext app_state
  | ClipboardNext string
  | ClientConnect string
  | ClientDisconnect
  | ClientSetClipboard string

text \<open>
  The fields of the class, and with them what the class sees of the two objects it owns. The
  protocol engine \<^verbatim>\<open>this.client\<close> and the tunnel \<^verbatim>\<open>this.tunnel\<close> come from guacamole-js,
  whose code is not among the sources. Of the engine the record keeps its state code
  (0 idle, 1 connecting, 2 waiting, 3 connected, 4 disconnecting, 5 disconnected); of the
  tunnel its URL, its state code (0 connecting, 1 open, 2 closed) and whether it has a
  socket, which it gets when it connects. The field \<open>handlersBound\<close> says whether
  \<^verbatim>\<open>bindEventHandlers\<close> has put the handlers into the callback slots of the engine and the
  tunnel.
\<close>

record remote_desktop_client =
  onStateChange :: "app_state subject"
  onClipboard :: "string subject"
  tunnelURL :: string
  engineState :: int
  tunnelState :: int
  socket :: bool
  state :: app_state
  options :: js_object
  handlersBound :: bool
  effects :: "effect list"

text \<open>
  The field initialisers and the constructor (lines 50, 52, 72, 74 to 77). A new engine is
  idle; a new tunnel is in the state connecting and has no socket.
\<close>

definition new_client :: "string \<Rightarrow> js_object \<Rightarrow> remote_desktop_client" where
  "new_client url opts =
     \<lparr>onStateChange = BehaviorSubject CONNECTING,
      onClipboard = ReplaySubject 1,
      tunnelURL = url,
      engineState = 0,
      tunnelState = 0,
      socket = False,
      state = IDLE,
      options = opts,
      handlersBound = False,
      effects = []\<rparr>"

definition getState :: "remote_desktop_client \<Rightarrow> app_state" where
  "getState c = state c"

definition isState :: "app_state \<Rightarrow> remote_desktop_client \<Rightarrow> bool" where
  "isState s c = (s = state c)"

text \<open>
  \<^verbatim>\<open>if (text) { this.onClipboard.next(text); this.client.setClipboard(text); }\<close>:
  an absent text (\<^verbatim>\<open>undefined\<close>, \<^verbatim>\<open>null\<close>) is \<open>None\<close>; a string is truthy when it is
  not empty. The engine's \<^verbatim>\<open>setClipboard\<close> writes to the tunnel and calls nothing of the
  class.
\<close>

definition sendClipboard :: "string option \<Rightarrow> remote_desktop_client \<Rightarrow> remote_desktop_client" where
  "sendClipboard text c =
     (case text of
        None \<Rightarrow> c
      | Some t \<Rightarrow>
          if t = [] then c
          else c\<lparr>onClipboard := subject_next t (onClipboard c),
                 effects := effects c @ [ClipboardNext t, ClientSetClipboard t]\<rparr>)"

definition setState :: "app_state \<Rightarrow> remote_desktop_client \<Rightarrow> remote_desktop_client" where
  "setState s c =
     c\<lparr>state := s,
       onStateChange := subject_next s (onStateChange c),
       effects := effects c @ [StateNext s]\<rparr>"

text \<open>The \<^verbatim>\<open>switch\<close> compares with strict equality; a code that matches no case falls through.\<close>

definition handleClientStateChange :: "int \<Rightarrow> remote_desktop_client \<Rightarrow> remote_desktop_client" where
  "handleClientStateChange code c =
     (if code = 0 then setState IDLE c
      else if code = 1 then c
      else if code = 2 then setState WAITING c
      else if code = 3 then setState CONNECTED c
      else if code = 4 \<or> code = 5 then c
      else c)"

definition handleTunnelStateChange :: "int \<Rightarrow> remote_desktop_client \<Rightarrow> remote_desktop_client" where
  "handleTunnelStateChange code c =
     (if code = 1 then setState CONNECTING c
      else if code = 2 then setState DISCONNECTED c
      else c)"

subsection \<open>The engine and the tunnel\<close>

text \<open>
  What guacamole-js does inside the calls the class makes, as far as the class can see it.
  The engine and the tunnel call the handlers of the class synchronously, inside these
  calls, when the handlers are bound.

  The callback slots \<^verbatim>\<open>client.onstatechange\<close> and \<^verbatim>\<open>tunnel.onstatechange\<close>: the library calls a
  slot only if it is set.
\<close>

definition client_onstatechange :: "int \<Rightarrow> remote_desktop_client \<Rightarrow> remote_desktop_client" where
  "client_onstatechange code c = (if handlersBound c then handleClientStateChange code c else c)"

definition tunnel_onstatechange :: "int \<Rightarrow> remote_desktop_client \<Rightarrow> remote_desktop_client" where
  "tunnel_onstatechange code c = (if handlersBound c then handleTunnelStateChange code c else c)"

text \<open>
  The engine's internal \<^verbatim>\<open>setState(state)\<close>: when the state differs from the current one, it
  is stored and \<^verbatim>\<open>onstatechange\<close> is called with it.
\<close>

definition Client_setState :: "int \<Rightarrow> remote_desktop_client \<Rightarrow> remote_desktop_client" where
  "Client_setState code c =
     (if code \<noteq> engineState c then client_onstatechange code (c\<lparr>engineState := code\<rparr>)
      else c)"

text \<open>
  \<^verbatim>\<open>tunnel.disconnect()\<close> of the WebSocket tunnel: nothing if the tunnel is closed already;
  otherwise the tunnel is marked closed, \<^verbatim>\<open>onstatechange\<close> is called with the code 2, and
  then the socket is closed, which raises a TypeError when there is no socket.
\<close>

definition Tunnel_disconnect ::
  "remote_desktop_client \<Rightarrow> error option \<times> remote_desktop_client" where
  "Tunnel_disconnect c =
     (if tunnelState c = 2 then (None, c)
      else
        let c' = tunnel_onstatechange 2 (c\<lparr>tunnelState := 2\<rparr>)
        in (if socket c' then (None, c') else (Some TypeError, c')))"

text \<open>
  \<^verbatim>\<open>client.disconnect()\<close>: nothing if the engine is disconnecting or disconnected; otherwise
  the engine moves to disconnecting, sends the disconnect message (the tunnel sends only
  when it is open, and calls nothing of the class), disconnects the tunnel and moves to
  disconnected. An exception from the tunnel leaves the engine disconnecting.
\<close>

definition Client_disconnect ::
  "remote_desktop_client \<Rightarrow> error option \<times> remote_desktop_client" where
  "Client_disconnect c =
     (if engineState c \<noteq> 5 \<and> engineState c \<noteq> 4 then
        (case Tunnel_disconnect (Client_setState 4 c) of
           (Some e, c') \<Rightarrow> (Some e, c')
         | (None, c') \<Rightarrow> (None, Client_setState 5 c'))
      else (None, c))"

text \<open>
  \<^verbatim>\<open>client.connect(data)\<close>: the engine moves to connecting, the tunnel opens a socket, and the
  engine moves to waiting. The socket is taken to accept the tunnel's URL.
\<close>

definition Client_connect :: "remote_desktop_client \<Rightarrow> remote_desktop_client" where
  "Client_connect c = Client_setState 2 ((Client_setState 1 c)\<lparr>socket := True\<rparr>)"

subsection \<open>The methods that call the engine\<close>

definition disconnect :: "remote_desktop_client \<Rightarrow> error option \<times> remote_desktop_client" where
  "disconnect c = Client_disconnect (c\<lparr>effects := effects c @ [ClientDisconnect]\<rparr>)"

text \<open>If \<^verbatim>\<open>this.disconnect()\<close> raises, the handler is left before \<^verbatim>\<open>setState\<close>.\<close>

definition handleClientError ::
  "status \<Rightarrow> remote_desktop_client \<Rightarrow> error option \<times> remote_desktop_client" where
  "handleClientError status c =
     (case disconnect c of
        (Some e, c') \<Rightarrow> (Some e, c')
      | (None, c') \<Rightarrow> (None, setState CLIENT_ERROR c'))"

definition handleTunnelError ::
  "status \<Rightarrow> remote_desktop_client \<Rightarrow> error option \<times> remote_desktop_client" where
  "handleTunnelError status c =
     (case disconnect c of
        (Some e, c') \<Rightarrow> (Some e, c')
      | (None, c') \<Rightarrow> (None, setState TUNNEL_ERROR c'))"

text \<open>
  \<^verbatim>\<open>window.screen\<close> is read at call time; it is the argument \<open>screen\<close>, of which the code
  reads the width and the height.
\<close>

record dimensions =
  height :: int
  width :: int

definition calculateDimensions :: "dimensions \<Rightarrow> dimensions" where
  "calculateDimensions screen = \<lparr>height = height screen, width = width screen\<rparr>"

text \<open>
  The loop goes through the own keys of \<open>opts\<close> in enumeration order. For each key it first
  calls \<^verbatim>\<open>options.hasOwnProperty(key)\<close>: when the object has an own property of the name
  \<^verbatim>\<open>hasOwnProperty\<close>, that property is what is called, it is not a function, and the call
  raises a TypeError at the first key. Otherwise every key is written into a fresh
  \<^verbatim>\<open>URLSearchParams\<close>, whose string is returned.
\<close>

definition buildQueryString :: "(int \<Rightarrow> string) \<Rightarrow> js_object \<Rightarrow> error + string" where
  "buildQueryString toStr opts =
     (if map_of opts ''hasOwnProperty'' \<noteq> None then Inl TypeError
      else Inr (params_toString
                  (fold (\<lambda>p. params_set toStr (fst p) (snd p)) (own_entries opts) [])))"

text \<open>The object literal of \<^verbatim>\<open>buildConfiguration\<close>, before the spread of the caller's options.\<close>

definition default_options :: "dimensions \<Rightarrow> js_object" where
  "default_options dims =
     [(''ID'', JNull),
      (''WIDTH'', JNum (width dims)),
      (''HEIGHT'', JNum (height dims)),
      (''AUDIO'', JStr ''audio/L16''),
      (''IMAGE'', JStr ''image/png'')]"

definition merged_options :: "dimensions \<Rightarrow> remote_desktop_client \<Rightarrow> js_object" where
  "merged_options screen c =
     obj_spread (options c) (default_options (calculateDimensions screen))"

definition buildConfiguration ::
  "(int \<Rightarrow> string) \<Rightarrow> dimensions \<Rightarrow> remote_desktop_client \<Rightarrow> error + string" where
  "buildConfiguration toStr screen c = buildQueryString toStr (merged_options screen c)"

definition bindEventHandlers :: "remote_desktop_client \<Rightarrow> remote_desktop_client" where
  "bindEventHandlers c = c\<lparr>handlersBound := True\<rparr>"

text \<open>
  \<^verbatim>\<open>connect()\<close>: when \<^verbatim>\<open>buildConfiguration\<close> raises, neither the engine is called nor are the
  handlers bound.
\<close>

definition connect ::
  "(int \<Rightarrow> string) \<Rightarrow> dimensions \<Rightarrow> remote_desktop_client \<Rightarrow>
     error option \<times> remote_desktop_client" where
  "connect toStr screen c =
     (case buildConfiguration toStr screen c of
        Inl e \<Rightarrow> (Some e, c)
      | Inr configuration \<Rightarrow>
          (None, bindEventHandlers
                   (Client_connect (c\<lparr>effects := effects c @ [ClientConnect configuration]\<rparr>))))"

text \<open>
  Whether \<^verbatim>\<open>client.disconnect()\<close> gets as far as closing the tunnel: the engine is neither
  disconnecting nor disconnected, and the tunnel is not closed yet.
\<close>

definition closes_tunnel :: "remote_desktop_client \<Rightarrow> bool" where
  "closes_tunnel c = (engineState c \<noteq> 4 \<and> engineState c \<noteq> 5 \<and> tunnelState c \<noteq> 2)"

section \<open>Inbound clipboard streams\<close>

text \<open>
  Modelled from the spec: the class \<^verbatim>\<open>StringReader\<close> comes from guacamole-js, whose code is not
  among the sources. Section 6 gives its interface: attached to a stream handle, it calls
  \<^verbatim>\<open>ontext(chunk)\<close> once per chunk of text, in order, and \<^verbatim>\<open>onend()\<close> at the end of the stream.
  These two callbacks are events of the environment (\<open>ReaderOnText\<close>, \<open>ReaderOnEnd\<close> below).
\<close>

text \<open>
  \<^verbatim>\<open>handleClipboard(stream, mimetype)\<close> attaches a reader to the stream when the type matches
  \<^verbatim>\<open>/^text\//\<close>; the reader's two callbacks close over a fresh variable \<^verbatim>\<open>data\<close>. The store
  \<open>readers\<close> maps a stream handle to the \<^verbatim>\<open>data\<close> of the reader attached to it. For any
  other type the function does nothing.
\<close>

type_synonym readers = "nat \<Rightarrow> string option"

definition handleClipboard :: "nat \<Rightarrow> string \<Rightarrow> readers \<Rightarrow> readers" where
  "handleClipboard stream mimetype rs =
     (if take 5 mimetype = ''text/'' then rs(stream \<mapsto> []) else rs)"

text \<open>\<^verbatim>\<open>reader.ontext = (text) => data += text\<close>\<close>

definition reader_ontext :: "nat \<Rightarrow> string \<Rightarrow> readers \<Rightarrow> readers" where
  "reader_ontext stream text rs =
     (case rs stream of None \<Rightarrow> rs | Some data \<Rightarrow> rs(stream \<mapsto> data @ text))"

text \<open>\<^verbatim>\<open>reader.onend = () => this.onClipboard.next(data)\<close>\<close>

definition reader_onend :: "nat \<Rightarrow> readers \<Rightarrow> remote_desktop_client \<Rightarrow> remote_desktop_client" where
  "reader_onend stream rs c =
     (case rs stream of
        None \<Rightarrow> c
      | Some data \<Rightarrow>
          c\<lparr>onClipboard := subject_next data (onClipboard c),
            effects := effects c @ [ClipboardNext data]\<rparr>)"

section \<open>The object in its environment\<close>

text \<open>
  Everything that can happen to a client: a call of its public interface, a subscription to
  one of its channels, or a callback from the engine, the tunnel or a stream reader. The
  callbacks of the engine and the tunnel reach the handlers only once \<^verbatim>\<open>connect\<close> has bound
  them (\<^verbatim>\<open>bindEventHandlers\<close>). A state callback comes with the engine or the tunnel being
  in the state it reports. A call that raises leaves the client as the exception left it.
\<close>

datatype event =
    CallConnect dimensions
  | CallDisconnect
  | CallSendClipboard "string option"
  | SubscribeState
  | SubscribeClipboard
  | ClientOnError status
  | ClientOnStateChange int
  | ClientOnClipboard nat string
  | TunnelOnError status
  | TunnelOnStateChange int
  | ReaderOnText nat string
  | ReaderOnEnd nat

record world =
  rdc :: remote_desktop_client
  readers :: readers

definition new_world :: "string \<Rightarrow> js_object \<Rightarrow> world" where
  "new_world url opts = \<lparr>rdc = new_client url opts, readers = Map.empty\<rparr>"

fun step :: "(int \<Rightarrow> string) \<Rightarrow> event \<Rightarrow> world \<Rightarrow> world" where
  "step toStr (CallConnect screen) w = w\<lparr>rdc := snd (connect toStr screen (rdc w))\<rparr>"
| "step toStr CallDisconnect w = w\<lparr>rdc := snd (disconnect (rdc w))\<rparr>"
| "step toStr (CallSendClipboard text) w = w\<lparr>rdc := sendClipboard text (rdc w)\<rparr>"
| "step toStr SubscribeState w =
     w\<lparr>rdc := (rdc w)\<lparr>onStateChange := subscribe (onStateChange (rdc w))\<rparr>\<rparr>"
| "step toStr SubscribeClipboard w =
     w\<lparr>rdc := (rdc w)\<lparr>onClipboard := subscribe (onClipboard (rdc w))\<rparr>\<rparr>"
| "step toStr (ClientOnError status) w =
     (if handlersBound (rdc w) then w\<lparr>rdc := snd (handleClientError status (rdc w))\<rparr> else w)"
| "step toStr (ClientOnStateChange code) w =
     w\<lparr>rdc := client_onstatechange code ((rdc w)\<lparr>engineState := code\<rparr>)\<rparr>"
| "step toStr (ClientOnClipboard stream mimetype) w =
     (if handlersBound (rdc w) then w\<lparr>readers := handleClipboard stream mimetype (readers w)\<rparr>
      else w)"
| "step toStr (TunnelOnError status) w =
     (if handlersBound (rdc w) then w\<lparr>rdc := snd (handleTunnelError status (rdc w))\<rparr> else w)"
| "step toStr (TunnelOnStateChange code) w =
     w\<lparr>rdc := tunnel_onstatechange code ((rdc w)\<lparr>tunnelState := code\<rparr>)\<rparr>"
| "step toStr (ReaderOnText stream text) w =
     w\<lparr>readers := reader_ontext stream text (readers w)\<rparr>"
| "step toStr (ReaderOnEnd stream) w = w\<lparr>rdc := reader_onend stream (readers w) (rdc w)\<rparr>"

text \<open>
  What a stream delivers to the reader attached to it: chunks of text, and the end of the
  stream.
\<close>

datatype stream_item = Chunk string | EndOfStream

fun stream_event :: "nat \<Rightarrow> stream_item \<Rightarrow> event" where
  "stream_event stream (Chunk text) = ReaderOnText stream text"
| "stream_event stream EndOfStream = ReaderOnEnd stream"

definition run :: "(int \<Rightarrow> string) \<Rightarrow> event list \<Rightarrow> world \<Rightarrow> world" where
  "run toStr evs w = fold (step toStr) evs w"

text \<open>The states published on the state channel, read off the effect log.\<close>

fun published_states :: "effect list \<Rightarrow> app_state list" where
  "published_states [] = []"
| "published_states (StateNext s # es) = s # published_states es"
| "published_states (_ # es) = published_states es"

text \<open>
  The mapping table of section 4.3 for the client engine's codes, written from the spec's
  words: code 0 is Idle, code 2 is Waiting, code 3 is Connected; codes 1, 4, 5 and any
  other code publish nothing.
\<close>

definition spec_client_table :: "int \<Rightarrow> app_state option" where
  "spec_client_table code =
     (if code = 0 then Some IDLE
      else if code = 2 then Some WAITING
      else if code = 3 then Some CONNECTED
      else None)"

text \<open>The payloads published on the clipboard channel, read off the effect log.\<close>

fun published_clipboard :: "effect list \<Rightarrow> string list" where
  "published_clipboard [] = []"
| "published_clipboard (ClipboardNext t # es) = t # published_clipboard es"
| "published_clipboard (_ # es) = published_clipboard es"

text \<open>
  How the two channels and the field \<open>state\<close> stand to what has been published: both channels
  have replay depth 1; the state channel replays the last published state, or Connecting
  when none has been published; the field \<open>state\<close> is the last published state, or Idle; the
  clipboard channel replays the last published payload, or nothing.
\<close>

definition in_step :: "remote_desktop_client \<Rightarrow> bool" where
  "in_step c =
     (bufferSize (onStateChange c) = 1 \<and>
      buffer (onStateChange c) = [last (CONNECTING # published_states (effects c))] \<and>
      state c = last (IDLE # published_states (effects c)) \<and>
      bufferSize (onClipboard c) = 1 \<and>
      buffer (onClipboard c) =
        (if published_clipboard (effects c) = [] then []
         else [last (published_clipboard (effects c))]))"

section \<open>Properties\<close>

lemma published_states_append:
  "published_states (es @ fs) = published_states es @ published_states fs"
  by (induction es rule: published_states.induct) simp_all

lemma handleClientStateChange_effects:
  "effects (handleClientStateChange code c) =
     effects c @ map StateNext (List.map_filter spec_client_table [code])"
  by (simp add: handleClientStateChange_def spec_client_table_def setState_def)

lemma handleClientStateChange_state:
  "state (handleClientStateChange code c) =
     last (state c # List.map_filter spec_client_table [code])"
  by (simp add: handleClientStateChange_def spec_client_table_def setState_def)

lemma handleClientStateChange_observers:
  "observers (onStateChange (handleClientStateChange code c)) =
     map (\<lambda>received. received @ List.map_filter spec_client_table [code])
       (observers (onStateChange c))"
  by (simp add: handleClientStateChange_def spec_client_table_def setState_def
      subject_next_def)

lemma map_filter_Cons_append:
  "List.map_filter f (x # xs) = List.map_filter f [x] @ List.map_filter f xs"
  by (simp add: List.map_filter_def)

lemma fold_handleClientStateChange_effects:
  "effects (fold handleClientStateChange codes c) =
     effects c @ map StateNext (List.map_filter spec_client_table codes)"
proof (induction codes arbitrary: c)
  case Nil
  show ?case by simp
next
  case (Cons code codes)
  have "effects (fold handleClientStateChange (code # codes) c) =
          effects (handleClientStateChange code c) @
          map StateNext (List.map_filter spec_client_table codes)"
    using Cons.IH [of "handleClientStateChange code c"] by simp
  also have "\<dots> = effects c @ map StateNext (List.map_filter spec_client_table [code]) @
          map StateNext (List.map_filter spec_client_table codes)"
    by (simp only: handleClientStateChange_effects append_assoc)
  also have "\<dots> = effects c @ map StateNext (List.map_filter spec_client_table (code # codes))"
    by (simp only: map_filter_Cons_append [of _ code codes] map_append)
  finally show ?case .
qed

lemma fold_handleClientStateChange_state:
  "state (fold handleClientStateChange codes c) =
     last (state c # List.map_filter spec_client_table codes)"
proof (induction codes arbitrary: c)
  case Nil
  show ?case by simp
next
  case (Cons code codes)
  have "state (fold handleClientStateChange (code # codes) c) =
          last (state (handleClientStateChange code c) #
                List.map_filter spec_client_table codes)"
    using Cons.IH [of "handleClientStateChange code c"] by simp
  also have "\<dots> = last ((state c # List.map_filter spec_client_table [code]) @
                List.map_filter spec_client_table codes)"
    by (simp add: handleClientStateChange_state)
  also have "\<dots> = last (state c # List.map_filter spec_client_table (code # codes))"
    by (simp only: map_filter_Cons_append [of _ code codes] append_Cons)
  finally show ?case .
qed

lemma fold_handleClientStateChange_observers:
  "observers (onStateChange (fold handleClientStateChange codes c)) =
     map (\<lambda>received. received @ List.map_filter spec_client_table codes)
       (observers (onStateChange c))"
proof (induction codes arbitrary: c)
  case Nil
  show ?case by simp
next
  case (Cons code codes)
  have "observers (onStateChange (fold handleClientStateChange (code # codes) c)) =
          map (\<lambda>received. received @ List.map_filter spec_client_table codes)
            (observers (onStateChange (handleClientStateChange code c)))"
    using Cons.IH [of "handleClientStateChange code c"] by simp
  also have "\<dots> = map (\<lambda>received. received @ List.map_filter spec_client_table (code # codes))
            (observers (onStateChange c))"
    by (simp add: handleClientStateChange_observers map_filter_Cons_append [of _ code codes]
        del: List.map_filter_simps)
  finally show ?case .
qed

lemma published_clipboard_append:
  "published_clipboard (es @ fs) = published_clipboard es @ published_clipboard fs"
  by (induction es rule: published_clipboard.induct) simp_all

lemma published_states_map_StateNext: "published_states (map StateNext ss) = ss"
  by (induction ss) simp_all

subsection \<open>The client engine's state codes\<close>

text \<open>
  Claim C1. For every sequence of raw client-engine state codes delivered to
  \<^verbatim>\<open>handleClientStateChange\<close>, starting from any client, the states published on the state
  channel are exactly the images of the codes under the table of section 4.3, in order:
  the effect log grows by these publications and by nothing else, every subscriber is
  delivered them, and the current state is the last of them. Code 0 publishes Idle, code 2
  Waiting, code 3 Connected; codes 1, 4, 5 and every code outside 0..5 leave the client as it
  is.
\<close>

theorem client_codes_follow_table:
  "effects (fold handleClientStateChange codes c) =
     effects c @ map StateNext (List.map_filter spec_client_table codes) \<and>
   published_states (effects (fold handleClientStateChange codes c)) =
     published_states (effects c) @ List.map_filter spec_client_table codes \<and>
   observers (onStateChange (fold handleClientStateChange codes c)) =
     map (\<lambda>received. received @ List.map_filter spec_client_table codes)
       (observers (onStateChange c)) \<and>
   state (fold handleClientStateChange codes c) =
     last (state c # List.map_filter spec_client_table codes) \<and>
   spec_client_table 0 = Some IDLE \<and> spec_client_table 2 = Some WAITING \<and>
   spec_client_table 3 = Some CONNECTED \<and>
   handleClientStateChange 1 c = c \<and> handleClientStateChange 4 c = c \<and>
   handleClientStateChange 5 c = c \<and>
   (\<forall>code. code < 0 \<or> 5 < code \<longrightarrow>
      spec_client_table code = None \<and> handleClientStateChange code c = c)"
proof -
  have "published_states (effects (fold handleClientStateChange codes c)) =
     published_states (effects c) @ List.map_filter spec_client_table codes"
    by (simp add: fold_handleClientStateChange_effects published_states_append
        published_states_map_StateNext)
  moreover have "spec_client_table 0 = Some IDLE \<and> spec_client_table 2 = Some WAITING \<and>
      spec_client_table 3 = Some CONNECTED"
    by (simp add: spec_client_table_def)
  moreover have "handleClientStateChange 1 c = c \<and> handleClientStateChange 4 c = c \<and>
      handleClientStateChange 5 c = c"
    by (simp add: handleClientStateChange_def)
  moreover have "\<forall>code. code < 0 \<or> 5 < code \<longrightarrow>
      spec_client_table code = None \<and> handleClientStateChange code c = c"
    by (auto simp add: spec_client_table_def handleClientStateChange_def)
  ultimately show ?thesis
    using fold_handleClientStateChange_effects [of codes c]
      fold_handleClientStateChange_state [of codes c]
      fold_handleClientStateChange_observers [of codes c]
    by blast
qed

text \<open>The theorem at a concrete sequence, with the unrecognised codes 9 and -1.\<close>

theorem client_codes_follow_table_witness:
  "published_states (effects (fold handleClientStateChange [0, 1, 2, 3, 4, 5, 9, 3, - 1, 0]
      (new_client ''ws://host'' []))) = [IDLE, WAITING, CONNECTED, CONNECTED, IDLE] \<and>
   state (fold handleClientStateChange [0, 1, 2, 3, 4, 5, 9, 3, - 1, 0]
      (new_client ''ws://host'' [])) = IDLE \<and>
   (5 :: int) < 9 \<and>
   handleClientStateChange 9 (new_client ''ws://host'' []) = new_client ''ws://host'' []"
  using client_codes_follow_table [of "[0, 1, 2, 3, 4, 5, 9, 3, - 1, 0]" "new_client ''ws://host'' []"]
  by (simp add: spec_client_table_def new_client_def)

subsection \<open>The tunnel's state codes\<close>

text \<open>
  Claim C2. \<^verbatim>\<open>handleTunnelStateChange\<close>: code 1 sets the state Connecting and publishes it,
  code 2 sets the state Disconnected and publishes it, and every other code leaves the
  client unchanged (no state change, no publication).
\<close>

theorem tunnel_codes:
  "state (handleTunnelStateChange 1 c) = CONNECTING \<and>
   effects (handleTunnelStateChange 1 c) = effects c @ [StateNext CONNECTING] \<and>
   onStateChange (handleTunnelStateChange 1 c) = subject_next CONNECTING (onStateChange c) \<and>
   state (handleTunnelStateChange 2 c) = DISCONNECTED \<and>
   effects (handleTunnelStateChange 2 c) = effects c @ [StateNext DISCONNECTED] \<and>
   onStateChange (handleTunnelStateChange 2 c) = subject_next DISCONNECTED (onStateChange c) \<and>
   (\<forall>code. code \<noteq> 1 \<and> code \<noteq> 2 \<longrightarrow> handleTunnelStateChange code c = c)"
  by (simp add: handleTunnelStateChange_def setState_def)

text \<open>The theorem at a fresh client, with the codes 0 and 3 for "every other code".\<close>

theorem tunnel_codes_witness:
  "state (handleTunnelStateChange 1 (new_client ''ws://host'' [])) = CONNECTING \<and>
   effects (handleTunnelStateChange 2 (new_client ''ws://host'' [])) = [StateNext DISCONNECTED] \<and>
   (0 :: int) \<noteq> 1 \<and> (0 :: int) \<noteq> 2 \<and>
   handleTunnelStateChange 0 (new_client ''ws://host'' []) = new_client ''ws://host'' [] \<and>
   handleTunnelStateChange 3 (new_client ''ws://host'' []) = new_client ''ws://host'' []"
  using tunnel_codes [of "new_client ''ws://host'' []"]
  by (simp add: new_client_def)

subsection \<open>Outbound clipboard\<close>

text \<open>
  Claim C6. \<^verbatim>\<open>sendClipboard(text)\<close> with a non-empty text performs exactly two effects, in
  this order: it publishes the text on the clipboard channel, then it calls the engine's
  \<^verbatim>\<open>setClipboard\<close> with the same text. With an empty or an absent text the client is left
  as it is.
\<close>

theorem sendClipboard_effects:
  "(text \<noteq> [] \<longrightarrow>
      effects (sendClipboard (Some text) c) =
        effects c @ [ClipboardNext text, ClientSetClipboard text] \<and>
      onClipboard (sendClipboard (Some text) c) = subject_next text (onClipboard c) \<and>
      state (sendClipboard (Some text) c) = state c \<and>
      onStateChange (sendClipboard (Some text) c) = onStateChange c) \<and>
   sendClipboard (Some []) c = c \<and>
   sendClipboard None c = c"
  by (simp add: sendClipboard_def)

text \<open>The theorem at the text \<open>''abc''\<close> on a fresh client.\<close>

theorem sendClipboard_effects_witness:
  "''abc'' \<noteq> [] \<and>
   effects (sendClipboard (Some ''abc'') (new_client ''ws://host'' [])) =
     [ClipboardNext ''abc'', ClientSetClipboard ''abc''] \<and>
   buffer (onClipboard (sendClipboard (Some ''abc'') (new_client ''ws://host'' []))) = [''abc''] \<and>
   sendClipboard (Some []) (new_client ''ws://host'' []) = new_client ''ws://host'' []"
  using sendClipboard_effects [of "''abc''" "new_client ''ws://host'' []"]
  by (simp add: new_client_def ReplaySubject_def subject_next_def)

subsection \<open>Inside the engine's disconnect\<close>

lemmas callback_defs =
  client_onstatechange_def tunnel_onstatechange_def handleClientStateChange_def
  handleTunnelStateChange_def setState_def

lemma Client_setState_quiet:
  "code = 1 \<or> code = 4 \<or> code = 5 \<Longrightarrow> Client_setState code c =
     (if code \<noteq> engineState c then c\<lparr>engineState := code\<rparr> else c)"
  by (auto simp add: Client_setState_def client_onstatechange_def handleClientStateChange_def)

lemma Tunnel_disconnect_result:
  "Tunnel_disconnect c =
     (if tunnelState c = 2 then (None, c)
      else (if socket c then None else Some TypeError,
            if handlersBound c then setState DISCONNECTED (c\<lparr>tunnelState := 2\<rparr>)
            else c\<lparr>tunnelState := 2\<rparr>))"
  by (simp add: Tunnel_disconnect_def tunnel_onstatechange_def handleTunnelStateChange_def
      setState_def Let_def)

lemma Client_disconnect_fst:
  "fst (Client_disconnect c) = (if closes_tunnel c \<and> \<not> socket c then Some TypeError else None)"
  by (simp add: Client_disconnect_def Client_setState_quiet Tunnel_disconnect_result
      closes_tunnel_def setState_def)

lemma Client_disconnect_effects:
  "effects (snd (Client_disconnect c)) =
     effects c @ (if closes_tunnel c \<and> handlersBound c then [StateNext DISCONNECTED] else [])"
  by (simp add: Client_disconnect_def Client_setState_quiet Tunnel_disconnect_result
      closes_tunnel_def setState_def)

lemma Client_disconnect_state:
  "state (snd (Client_disconnect c)) =
     (if closes_tunnel c \<and> handlersBound c then DISCONNECTED else state c)"
  by (simp add: Client_disconnect_def Client_setState_quiet Tunnel_disconnect_result
      closes_tunnel_def setState_def)

lemma Client_disconnect_onStateChange:
  "onStateChange (snd (Client_disconnect c)) =
     (if closes_tunnel c \<and> handlersBound c then subject_next DISCONNECTED (onStateChange c)
      else onStateChange c)"
  by (simp add: Client_disconnect_def Client_setState_quiet Tunnel_disconnect_result
      closes_tunnel_def setState_def)

lemma Client_disconnect_frame:
  "onClipboard (snd (Client_disconnect c)) = onClipboard c"
  "socket (snd (Client_disconnect c)) = socket c"
  "handlersBound (snd (Client_disconnect c)) = handlersBound c"
  "options (snd (Client_disconnect c)) = options c"
  by (simp_all add: Client_disconnect_def Client_setState_quiet Tunnel_disconnect_result
      setState_def)


lemma disconnect_fst:
  "fst (disconnect c) = (if closes_tunnel c \<and> \<not> socket c then Some TypeError else None)"
  by (simp add: disconnect_def Client_disconnect_fst closes_tunnel_def)

lemma disconnect_effects:
  "effects (snd (disconnect c)) =
     effects c @ ClientDisconnect #
       (if closes_tunnel c \<and> handlersBound c then [StateNext DISCONNECTED] else [])"
  by (simp add: disconnect_def Client_disconnect_effects closes_tunnel_def)

lemma disconnect_state:
  "state (snd (disconnect c)) =
     (if closes_tunnel c \<and> handlersBound c then DISCONNECTED else state c)"
  by (simp add: disconnect_def Client_disconnect_state closes_tunnel_def)

lemma disconnect_onStateChange:
  "onStateChange (snd (disconnect c)) =
     (if closes_tunnel c \<and> handlersBound c then subject_next DISCONNECTED (onStateChange c)
      else onStateChange c)"
  by (simp add: disconnect_def Client_disconnect_onStateChange closes_tunnel_def)

lemma disconnect_frame:
  "onClipboard (snd (disconnect c)) = onClipboard c"
  "socket (snd (disconnect c)) = socket c"
  "handlersBound (snd (disconnect c)) = handlersBound c"
  by (simp_all add: disconnect_def Client_disconnect_frame)

lemma handleClientError_cases:
  "handleClientError status c =
     (if closes_tunnel c \<and> \<not> socket c then (Some TypeError, snd (disconnect c))
      else (None, setState CLIENT_ERROR (snd (disconnect c))))"
  using disconnect_fst [of c]
  by (cases "disconnect c") (auto simp add: handleClientError_def)

lemma handleTunnelError_cases:
  "handleTunnelError status c =
     (if closes_tunnel c \<and> \<not> socket c then (Some TypeError, snd (disconnect c))
      else (None, setState TUNNEL_ERROR (snd (disconnect c))))"
  using disconnect_fst [of c]
  by (cases "disconnect c") (auto simp add: handleTunnelError_def)

text \<open>Once the handlers are bound, the tunnel has a socket.\<close>

lemma socket_callbacks:
  "socket (client_onstatechange code c) = socket c"
  "socket (tunnel_onstatechange code c) = socket c"
  "handlersBound (client_onstatechange code c) = handlersBound c"
  "handlersBound (tunnel_onstatechange code c) = handlersBound c"
  by (simp_all add: callback_defs)

lemma socket_errors:
  "socket (snd (handleClientError status c)) = socket c"
  "socket (snd (handleTunnelError status c)) = socket c"
  "handlersBound (snd (handleClientError status c)) = handlersBound c"
  "handlersBound (snd (handleTunnelError status c)) = handlersBound c"
  by (simp_all add: handleClientError_cases handleTunnelError_cases setState_def disconnect_frame)

lemma socket_connect:
  "handlersBound c \<longrightarrow> socket c \<Longrightarrow>
   handlersBound (snd (connect toStr screen c)) \<longrightarrow> socket (snd (connect toStr screen c))"
  by (cases "buildConfiguration toStr screen c")
    (simp_all add: connect_def bindEventHandlers_def Client_connect_def Client_setState_def
      socket_callbacks)

lemma socket_step:
  assumes "handlersBound (rdc w) \<longrightarrow> socket (rdc w)"
  shows "handlersBound (rdc (step toStr ev w)) \<longrightarrow> socket (rdc (step toStr ev w))"
  using assms
proof (cases ev)
  case (CallConnect screen)
  then show ?thesis
    using socket_connect [OF assms, of toStr screen] by simp
next
  case (CallSendClipboard t)
  then show ?thesis
    using assms by (cases t) (simp_all add: sendClipboard_def)
next
  case (ReaderOnEnd stream)
  then show ?thesis
    using assms by (cases "readers w stream") (simp_all add: reader_onend_def)
qed (simp_all add: socket_callbacks socket_errors disconnect_frame)

lemma run_Nil: "run toStr [] w = w"
  by (simp add: run_def)

lemma run_Cons: "run toStr (ev # evs) w = run toStr evs (step toStr ev w)"
  by (simp add: run_def)

lemma run_append: "run toStr (evs @ evs') w = run toStr evs' (run toStr evs w)"
  by (simp add: run_def)

lemma socket_run:
  "handlersBound (rdc w) \<longrightarrow> socket (rdc w) \<Longrightarrow>
   handlersBound (rdc (run toStr evs w)) \<longrightarrow> socket (rdc (run toStr evs w))"
proof (induction evs arbitrary: w)
  case Nil
  then show ?case by (simp add: run_Nil)
next
  case (Cons ev evs)
  show ?case
    unfolding run_Cons by (rule Cons.IH) (rule socket_step, rule Cons.prems)
qed

lemma socket_reachable:
  "handlersBound (rdc (run toStr evs (new_world url opts))) \<Longrightarrow>
   socket (rdc (run toStr evs (new_world url opts)))"
  using socket_run [of "new_world url opts" toStr evs]
  by (simp add: new_world_def new_client_def)

subsection \<open>Disconnect\<close>

text \<open>
  Claim C7, as amended. \<^verbatim>\<open>disconnect()\<close> calls the engine's \<^verbatim>\<open>disconnect\<close> and does nothing
  else of its own, whatever the application state. What happens to the state and to the
  state channel is what the handlers do when the engine calls them inside that call: when
  the engine gets as far as closing the tunnel and the handlers are bound, the state
  Disconnected is set and published, once, before \<^verbatim>\<open>disconnect()\<close> returns; otherwise the
  state and the state channel are unchanged. The clipboard channel is never touched. The
  call raises a TypeError exactly when the engine closes a tunnel that has no socket, as on
  a client that was never connected; on a client reached by any sequence of events whose
  handlers are bound it does not raise.
\<close>

theorem disconnect_delegates:
  "fst (disconnect c) = (if closes_tunnel c \<and> \<not> socket c then Some TypeError else None) \<and>
   effects (snd (disconnect c)) =
     effects c @ ClientDisconnect #
       (if closes_tunnel c \<and> handlersBound c then [StateNext DISCONNECTED] else []) \<and>
   state (snd (disconnect c)) =
     (if closes_tunnel c \<and> handlersBound c then DISCONNECTED else state c) \<and>
   onStateChange (snd (disconnect c)) =
     (if closes_tunnel c \<and> handlersBound c then subject_next DISCONNECTED (onStateChange c)
      else onStateChange c) \<and>
   onClipboard (snd (disconnect c)) = onClipboard c \<and>
   (handlersBound (rdc (run toStr evs (new_world url opts))) \<longrightarrow>
      fst (disconnect (rdc (run toStr evs (new_world url opts)))) = None)"
proof -
  have "fst (disconnect (rdc (run toStr evs (new_world url opts)))) = None"
    if "handlersBound (rdc (run toStr evs (new_world url opts)))"
    using socket_reachable [OF that] by (simp add: disconnect_fst)
  then show ?thesis
    using disconnect_fst [of c] disconnect_effects [of c] disconnect_state [of c]
      disconnect_onStateChange [of c] disconnect_frame(1) [of c]
    by blast
qed

text \<open>The theorem on a client that has just connected.\<close>

theorem disconnect_delegates_witness:
  "handlersBound (rdc (run show_int [CallConnect \<lparr>height = 768, width = 1024\<rparr>]
      (new_world ''ws://host'' []))) \<and>
   fst (disconnect (rdc (run show_int [CallConnect \<lparr>height = 768, width = 1024\<rparr>]
      (new_world ''ws://host'' [])))) = None \<and>
   published_states (effects (snd (disconnect (rdc (run show_int
      [CallConnect \<lparr>height = 768, width = 1024\<rparr>] (new_world ''ws://host'' [])))))) =
     [DISCONNECTED]"
proof -
  define c0 where
    "c0 = rdc (run show_int [CallConnect \<lparr>height = 768, width = 1024\<rparr>]
      (new_world ''ws://host'' []))"
  have bound: "handlersBound c0"
    unfolding c0_def by code_simp
  have closes: "closes_tunnel c0"
    unfolding c0_def by code_simp
  have quiet: "published_states (effects c0) = []"
    unfolding c0_def by code_simp
  have sock: "socket c0"
    unfolding c0_def by code_simp
  have "handlersBound c0 \<and> fst (disconnect c0) = None \<and>
      published_states (effects (snd (disconnect c0))) = [DISCONNECTED]"
    using disconnect_delegates [of c0 show_int
        "[CallConnect \<lparr>height = 768, width = 1024\<rparr>]" "''ws://host''" "[]"]
      bound closes quiet sock
    by (simp add: c0_def [symmetric] published_states_append)
  then show ?thesis
    unfolding c0_def .
qed

text \<open>
  Against the claim as stated: on a fresh client \<^verbatim>\<open>disconnect()\<close> raises; on a client that has
  just connected, where nothing has been published and the state is Idle, \<^verbatim>\<open>disconnect()\<close>
  publishes Disconnected and leaves the state Disconnected.
\<close>

theorem disconnect_raises_or_publishes:
  "fst (disconnect (new_client ''ws://host'' [])) = Some TypeError \<and>
   published_states (effects (rdc (run show_int
      [CallConnect \<lparr>height = 768, width = 1024\<rparr>] (new_world ''ws://host'' [])))) = [] \<and>
   state (rdc (run show_int
      [CallConnect \<lparr>height = 768, width = 1024\<rparr>] (new_world ''ws://host'' []))) = IDLE \<and>
   published_states (effects (rdc (run show_int
      [CallConnect \<lparr>height = 768, width = 1024\<rparr>, CallDisconnect]
      (new_world ''ws://host'' [])))) = [DISCONNECTED] \<and>
   state (rdc (run show_int
      [CallConnect \<lparr>height = 768, width = 1024\<rparr>, CallDisconnect]
      (new_world ''ws://host'' []))) = DISCONNECTED"
  by code_simp

subsection \<open>Errors\<close>

text \<open>
  Claim C3, as amended. An error signal from the client engine or from the tunnel, in any
  state of the client: the engine's \<^verbatim>\<open>disconnect\<close> is called first and, unless that call
  raises, the error state (ClientError or TunnelError) is published last and is the state
  the handler leaves. Between the two nothing is published, except the state Disconnected,
  once, when the engine closes the tunnel inside the call and the handlers are bound. On a
  client reached by any sequence of events whose handlers are bound the call does not
  raise.
\<close>

theorem error_handlers_order:
  "fst (handleClientError status c) =
     (if closes_tunnel c \<and> \<not> socket c then Some TypeError else None) \<and>
   effects (snd (handleClientError status c)) =
     effects c @ [ClientDisconnect] @
       (if closes_tunnel c \<and> handlersBound c then [StateNext DISCONNECTED] else []) @
       (if closes_tunnel c \<and> \<not> socket c then [] else [StateNext CLIENT_ERROR]) \<and>
   fst (handleTunnelError status' c) =
     (if closes_tunnel c \<and> \<not> socket c then Some TypeError else None) \<and>
   effects (snd (handleTunnelError status' c)) =
     effects c @ [ClientDisconnect] @
       (if closes_tunnel c \<and> handlersBound c then [StateNext DISCONNECTED] else []) @
       (if closes_tunnel c \<and> \<not> socket c then [] else [StateNext TUNNEL_ERROR]) \<and>
   (fst (handleClientError status c) = None \<longrightarrow>
      state (snd (handleClientError status c)) = CLIENT_ERROR) \<and>
   (fst (handleTunnelError status' c) = None \<longrightarrow>
      state (snd (handleTunnelError status' c)) = TUNNEL_ERROR) \<and>
   (handlersBound (rdc (run toStr evs (new_world url opts))) \<longrightarrow>
      fst (handleClientError status (rdc (run toStr evs (new_world url opts)))) = None \<and>
      fst (handleTunnelError status' (rdc (run toStr evs (new_world url opts)))) = None)"
proof -
  have reach: "fst (handleClientError status (rdc (run toStr evs (new_world url opts)))) = None \<and>
      fst (handleTunnelError status' (rdc (run toStr evs (new_world url opts)))) = None"
    if "handlersBound (rdc (run toStr evs (new_world url opts)))"
    using socket_reachable [OF that]
    by (simp add: handleClientError_cases handleTunnelError_cases)
  have client: "fst (handleClientError status c) =
     (if closes_tunnel c \<and> \<not> socket c then Some TypeError else None) \<and>
   effects (snd (handleClientError status c)) =
     effects c @ [ClientDisconnect] @
       (if closes_tunnel c \<and> handlersBound c then [StateNext DISCONNECTED] else []) @
       (if closes_tunnel c \<and> \<not> socket c then [] else [StateNext CLIENT_ERROR]) \<and>
   (fst (handleClientError status c) = None \<longrightarrow>
      state (snd (handleClientError status c)) = CLIENT_ERROR)"
    by (simp add: handleClientError_cases disconnect_effects setState_def)
  have tunnel: "fst (handleTunnelError status' c) =
     (if closes_tunnel c \<and> \<not> socket c then Some TypeError else None) \<and>
   effects (snd (handleTunnelError status' c)) =
     effects c @ [ClientDisconnect] @
       (if closes_tunnel c \<and> handlersBound c then [StateNext DISCONNECTED] else []) @
       (if closes_tunnel c \<and> \<not> socket c then [] else [StateNext TUNNEL_ERROR]) \<and>
   (fst (handleTunnelError status' c) = None \<longrightarrow>
      state (snd (handleTunnelError status' c)) = TUNNEL_ERROR)"
    by (simp add: handleTunnelError_cases disconnect_effects setState_def)
  show ?thesis
    using reach client tunnel by blast
qed


text \<open>The theorem on a connected client whose tunnel is open.\<close>

theorem error_handlers_order_witness:
  "handlersBound (rdc (run show_int
      [CallConnect \<lparr>height = 768, width = 1024\<rparr>, TunnelOnStateChange 1]
      (new_world ''ws://host'' []))) \<and>
   fst (handleClientError (Status 519 ''Aborted'') (rdc (run show_int
      [CallConnect \<lparr>height = 768, width = 1024\<rparr>, TunnelOnStateChange 1]
      (new_world ''ws://host'' [])))) = None \<and>
   state (snd (handleClientError (Status 519 ''Aborted'') (rdc (run show_int
      [CallConnect \<lparr>height = 768, width = 1024\<rparr>, TunnelOnStateChange 1]
      (new_world ''ws://host'' []))))) = CLIENT_ERROR \<and>
   published_states (effects (snd (handleClientError (Status 519 ''Aborted'') (rdc (run show_int
      [CallConnect \<lparr>height = 768, width = 1024\<rparr>, TunnelOnStateChange 1]
      (new_world ''ws://host'' [])))))) = [CONNECTING, DISCONNECTED, CLIENT_ERROR] \<and>
   fst (handleTunnelError (Status 514 ''Timeout'') (rdc (run show_int
      [CallConnect \<lparr>height = 768, width = 1024\<rparr>, TunnelOnStateChange 1]
      (new_world ''ws://host'' [])))) = None \<and>
   state (snd (handleTunnelError (Status 514 ''Timeout'') (rdc (run show_int
      [CallConnect \<lparr>height = 768, width = 1024\<rparr>, TunnelOnStateChange 1]
      (new_world ''ws://host'' []))))) = TUNNEL_ERROR"
proof -
  define c0 where
    "c0 = rdc (run show_int [CallConnect \<lparr>height = 768, width = 1024\<rparr>, TunnelOnStateChange 1]
      (new_world ''ws://host'' []))"
  have bound: "handlersBound c0"
    unfolding c0_def by code_simp
  have closes: "closes_tunnel c0"
    unfolding c0_def by code_simp
  have sock: "socket c0"
    unfolding c0_def by code_simp
  have before: "published_states (effects c0) = [CONNECTING]"
    unfolding c0_def by code_simp
  have "handlersBound c0 \<and>
      fst (handleClientError (Status 519 ''Aborted'') c0) = None \<and>
      state (snd (handleClientError (Status 519 ''Aborted'') c0)) = CLIENT_ERROR \<and>
      published_states (effects (snd (handleClientError (Status 519 ''Aborted'') c0))) =
        [CONNECTING, DISCONNECTED, CLIENT_ERROR] \<and>
      fst (handleTunnelError (Status 514 ''Timeout'') c0) = None \<and>
      state (snd (handleTunnelError (Status 514 ''Timeout'') c0)) = TUNNEL_ERROR"
    using error_handlers_order [of "Status 519 ''Aborted''" c0 "Status 514 ''Timeout''" show_int
        "[CallConnect \<lparr>height = 768, width = 1024\<rparr>, TunnelOnStateChange 1]" "''ws://host''" "[]"]
      bound closes sock before
    by (simp add: c0_def [symmetric] published_states_append)
  then show ?thesis
    unfolding c0_def .
qed

text \<open>
  Against the claim as stated: on a connected client, an error of the engine publishes
  Disconnected between the call of the engine's \<^verbatim>\<open>disconnect\<close> and ClientError; an error of
  the tunnel, which the tunnel reports before it closes, publishes Disconnected between the
  call and TunnelError.
\<close>

theorem error_publishes_between:
  "effects (rdc (run show_int
      [CallConnect \<lparr>height = 768, width = 1024\<rparr>, TunnelOnStateChange 1,
       ClientOnError (Status 519 ''Aborted'')]
      (new_world ''ws://host'' []))) =
     [ClientConnect ''WIDTH=1024&HEIGHT=768&AUDIO=audio/L16&IMAGE=image/png'',
      StateNext CONNECTING, ClientDisconnect, StateNext DISCONNECTED, StateNext CLIENT_ERROR] \<and>
   effects (rdc (run show_int
      [CallConnect \<lparr>height = 768, width = 1024\<rparr>, TunnelOnError (Status 514 ''Timeout''),
       TunnelOnStateChange 2]
      (new_world ''ws://host'' []))) =
     [ClientConnect ''WIDTH=1024&HEIGHT=768&AUDIO=audio/L16&IMAGE=image/png'',
      ClientDisconnect, StateNext DISCONNECTED, StateNext TUNNEL_ERROR, StateNext DISCONNECTED]"
  by code_simp

subsection \<open>Inbound clipboard streams\<close>

lemma run_chunks:
  "readers w stream = Some data \<Longrightarrow>
   run toStr (map (ReaderOnText stream) chunks) w =
     w\<lparr>readers := (readers w)(stream \<mapsto> data @ concat chunks)\<rparr>"
proof (induction chunks arbitrary: w data)
  case Nil
  then show ?case by (simp add: run_Nil fun_upd_idem)
next
  case (Cons chunk chunks)
  define w1 where "w1 = w\<lparr>readers := (readers w)(stream \<mapsto> data @ chunk)\<rparr>"
  have attached: "readers w1 stream = Some (data @ chunk)"
    by (simp add: w1_def)
  have "run toStr (map (ReaderOnText stream) (chunk # chunks)) w =
      run toStr (map (ReaderOnText stream) chunks) w1"
    using Cons.prems by (simp add: run_Cons reader_ontext_def w1_def)
  also have "\<dots> = w1\<lparr>readers := (readers w1)(stream \<mapsto> (data @ chunk) @ concat chunks)\<rparr>"
    using attached by (rule Cons.IH)
  also have "\<dots> = w\<lparr>readers := (readers w)(stream \<mapsto> data @ concat (chunk # chunks))\<rparr>"
    by (simp add: w1_def)
  finally show ?case .
qed

lemma run_unattached:
  "readers w stream = None \<Longrightarrow> run toStr (map (stream_event stream) items) w = w"
proof (induction items)
  case Nil
  show ?case by (simp add: run_Nil)
next
  case (Cons item items)
  have "step toStr (stream_event stream item) w = w"
    using Cons.prems by (cases item) (simp_all add: reader_ontext_def reader_onend_def)
  then show ?case
    using Cons by (simp add: run_Cons)
qed

text \<open>
  Claim C4. The clipboard assembly, once the handlers are bound. A stream announced with a
  MIME type that begins with \<^verbatim>\<open>text/\<close>, whose chunks arrive in order and are followed by the
  end of the stream, publishes exactly one payload on the clipboard channel, the
  concatenation of the chunks in order, and does nothing else to the client. The same stream
  without the end of the stream publishes nothing. A stream announced with any other MIME
  type gets no reader, and whatever it delivers publishes nothing.
\<close>

theorem clipboard_assembly:
  assumes bound: "handlersBound (rdc w)"
  shows "(take 5 mimetype = ''text/'' \<longrightarrow>
            rdc (run toStr (ClientOnClipboard stream mimetype #
                    map (ReaderOnText stream) chunks @ [ReaderOnEnd stream]) w) =
              (rdc w)\<lparr>onClipboard := subject_next (concat chunks) (onClipboard (rdc w)),
                      effects := effects (rdc w) @ [ClipboardNext (concat chunks)]\<rparr> \<and>
            rdc (run toStr (ClientOnClipboard stream mimetype #
                    map (ReaderOnText stream) chunks) w) = rdc w) \<and>
         (take 5 mimetype \<noteq> ''text/'' \<and> readers w stream = None \<longrightarrow>
            rdc (run toStr (ClientOnClipboard stream mimetype #
                    map (stream_event stream) items) w) = rdc w)"
proof -
  define w1 where "w1 = step toStr (ClientOnClipboard stream mimetype) w"
  have same: "rdc w1 = rdc w"
    using bound by (simp add: w1_def)
  have textual: "rdc (run toStr (map (ReaderOnText stream) chunks @ [ReaderOnEnd stream]) w1) =
              (rdc w)\<lparr>onClipboard := subject_next (concat chunks) (onClipboard (rdc w)),
                      effects := effects (rdc w) @ [ClipboardNext (concat chunks)]\<rparr> \<and>
      rdc (run toStr (map (ReaderOnText stream) chunks) w1) = rdc w"
    if "take 5 mimetype = ''text/''"
  proof -
    have attached: "readers w1 stream = Some []"
      using bound that by (simp add: w1_def handleClipboard_def)
    have chunks: "run toStr (map (ReaderOnText stream) chunks) w1 =
        w1\<lparr>readers := (readers w1)(stream \<mapsto> [] @ concat chunks)\<rparr>"
      using attached by (rule run_chunks)
    show ?thesis
      by (simp add: run_append chunks run_Cons run_Nil reader_onend_def same)
  qed
  have other: "rdc (run toStr (map (stream_event stream) items) w1) = rdc w"
    if "take 5 mimetype \<noteq> ''text/''" and "readers w stream = None"
  proof -
    have "w1 = w"
      using bound that by (simp add: w1_def handleClipboard_def)
    then show ?thesis
      using that by (simp add: run_unattached)
  qed
  show ?thesis
    using textual other by (simp add: run_Cons w1_def)
qed

text \<open>
  The theorem on a connected client: the chunks \<open>''Hel''\<close>, \<open>''lo''\<close> of a \<^verbatim>\<open>text/plain\<close>
  stream publish \<open>''Hello''\<close>; the same chunks of an \<^verbatim>\<open>image/png\<close> stream publish nothing.
\<close>

theorem clipboard_assembly_witness:
  "handlersBound (rdc (step show_int (CallConnect \<lparr>height = 768, width = 1024\<rparr>)
      (new_world ''ws://host'' []))) \<and>
   take 5 ''text/plain'' = ''text/'' \<and>
   published_clipboard (effects (rdc (run show_int
      [ClientOnClipboard 1 ''text/plain'', ReaderOnText 1 ''Hel'', ReaderOnText 1 ''lo'',
       ReaderOnEnd 1]
      (step show_int (CallConnect \<lparr>height = 768, width = 1024\<rparr>)
        (new_world ''ws://host'' []))))) = [''Hello''] \<and>
   take 5 ''image/png'' \<noteq> ''text/'' \<and>
   published_clipboard (effects (rdc (run show_int
      [ClientOnClipboard 1 ''image/png'', ReaderOnText 1 ''Hel'', ReaderOnText 1 ''lo'',
       ReaderOnEnd 1]
      (step show_int (CallConnect \<lparr>height = 768, width = 1024\<rparr>)
        (new_world ''ws://host'' []))))) = [] \<and>
   published_clipboard (effects (rdc (run show_int
      [ClientOnClipboard 1 ''text/plain'', ReaderOnText 1 ''Hel'', ReaderOnText 1 ''lo'']
      (step show_int (CallConnect \<lparr>height = 768, width = 1024\<rparr>)
        (new_world ''ws://host'' []))))) = []"
proof -
  define w0 where
    "w0 = step show_int (CallConnect \<lparr>height = 768, width = 1024\<rparr>) (new_world ''ws://host'' [])"
  have bound: "handlersBound (rdc w0)"
    unfolding w0_def by code_simp
  have fresh: "readers w0 1 = None"
    unfolding w0_def by code_simp
  have quiet: "published_clipboard (effects (rdc w0)) = []"
    unfolding w0_def by code_simp
  have "handlersBound (rdc w0) \<and>
   take 5 ''text/plain'' = ''text/'' \<and>
   published_clipboard (effects (rdc (run show_int
      [ClientOnClipboard 1 ''text/plain'', ReaderOnText 1 ''Hel'', ReaderOnText 1 ''lo'',
       ReaderOnEnd 1] w0))) = [''Hello''] \<and>
   take 5 ''image/png'' \<noteq> ''text/'' \<and>
   published_clipboard (effects (rdc (run show_int
      [ClientOnClipboard 1 ''image/png'', ReaderOnText 1 ''Hel'', ReaderOnText 1 ''lo'',
       ReaderOnEnd 1] w0))) = [] \<and>
   published_clipboard (effects (rdc (run show_int
      [ClientOnClipboard 1 ''text/plain'', ReaderOnText 1 ''Hel'', ReaderOnText 1 ''lo''] w0))) = []"
    using clipboard_assembly [OF bound, of "''text/plain''" show_int 1 "[''Hel'', ''lo'']"]
      clipboard_assembly [OF bound, of "''image/png''" show_int 1 _
        "[Chunk ''Hel'', Chunk ''lo'', EndOfStream]"]
      bound fresh quiet
    by (simp add: published_clipboard_append)
  then show ?thesis
    unfolding w0_def .
qed

subsection \<open>The configuration string\<close>

lemma map_of_obj_set: "map_of (obj_set k v ps) = (map_of ps)(k \<mapsto> v)"
  by (induction ps) (auto simp add: fun_eq_iff)

lemma map_of_fold_obj_set:
  "map_of (fold (\<lambda>p. obj_set (fst p) (snd p)) es t) = map_of t ++ map_of (rev es)"
proof (induction es arbitrary: t)
  case Nil
  show ?case by simp
next
  case (Cons e es)
  have "map_of (fold (\<lambda>p. obj_set (fst p) (snd p)) (e # es) t) =
          map_of (obj_set (fst e) (snd e) t) ++ map_of (rev es)"
    using Cons.IH [of "obj_set (fst e) (snd e) t"] by simp
  also have "\<dots> = (map_of t ++ map_of [e]) ++ map_of (rev es)"
    by (cases e) (simp add: map_of_obj_set)
  also have "\<dots> = map_of t ++ map_of (rev (e # es))"
    by (simp only: rev.simps map_of_append map_add_assoc)
  finally show ?case .
qed

lemma set_own_entries: "set (own_entries obj) = set obj"
  by (auto simp add: own_entries_def)

lemma distinct_own_entries:
  assumes "distinct (map fst obj)"
  shows "distinct (map fst (own_entries obj))"
proof -
  from assms have d: "distinct obj" and i: "inj_on fst (set obj)"
    by (simp_all add: distinct_map)
  have "distinct (own_entries obj)"
    using d by (auto simp add: own_entries_def)
  moreover have "inj_on fst (set (own_entries obj))"
    using i by (simp only: set_own_entries)
  ultimately show ?thesis
    by (simp add: distinct_map)
qed

lemma map_of_own_entries:
  assumes "distinct (map fst obj)"
  shows "map_of (rev (own_entries obj)) = map_of obj"
proof -
  have "distinct (map fst (rev (own_entries obj)))"
    using distinct_own_entries [OF assms] by (simp add: rev_map [symmetric])
  moreover have "set (rev (own_entries obj)) = set obj"
    by (simp add: set_own_entries)
  ultimately show ?thesis
    using assms by (simp add: map_of_inject_set)
qed

lemma map_of_obj_spread:
  "distinct (map fst source) \<Longrightarrow> map_of (obj_spread source target) = map_of target ++ map_of source"
  by (simp add: obj_spread_def map_of_fold_obj_set map_of_own_entries)

lemma show_int_examples:
  "show_int 1024 = ''1024''" "show_int 768 = ''768''" "show_int 800 = ''800''"
  by code_simp+

lemma key_kinds:
  "\<not> is_array_index ''ID''" "\<not> is_array_index ''WIDTH''" "\<not> is_array_index ''HEIGHT''"
  "\<not> is_array_index ''AUDIO''" "\<not> is_array_index ''IMAGE''"
  by code_simp+

lemma encodings:
  "standardEncoding ''ID'' = ''ID''" "standardEncoding ''WIDTH'' = ''WIDTH''"
  "standardEncoding ''HEIGHT'' = ''HEIGHT''" "standardEncoding ''AUDIO'' = ''AUDIO''"
  "standardEncoding ''IMAGE'' = ''IMAGE''"
  "standardEncoding ''audio/L16'' = ''audio/L16''"
  "standardEncoding ''image/png'' = ''image/png''"
  "standardEncoding ''1024'' = ''1024''" "standardEncoding ''768'' = ''768''"
  "standardEncoding ''800'' = ''800''"
  by code_simp+

lemma buildConfiguration_no_options:
  "options c = [] \<Longrightarrow>
   buildConfiguration toStr screen c =
     Inr (''WIDTH='' @ standardEncoding (toStr (width screen)) @
          ''&HEIGHT='' @ standardEncoding (toStr (height screen)) @
          ''&AUDIO=audio/L16&IMAGE=image/png'')"
  by (simp add: buildConfiguration_def merged_options_def obj_spread_def own_entries_def
      default_options_def calculateDimensions_def buildQueryString_def params_set_def
      params_toString_def key_kinds encodings)

lemma buildConfiguration_width_800:
  "options c = [(''WIDTH'', JNum 800)] \<Longrightarrow> toStr 800 = ''800'' \<Longrightarrow>
   buildConfiguration toStr screen c =
     Inr (''WIDTH=800&HEIGHT='' @ standardEncoding (toStr (height screen)) @
          ''&AUDIO=audio/L16&IMAGE=image/png'')"
  by (simp add: buildConfiguration_def merged_options_def obj_spread_def own_entries_def
      default_options_def calculateDimensions_def buildQueryString_def params_set_def
      params_toString_def key_kinds encodings)

text \<open>
  Claim C5, as amended. \<^verbatim>\<open>buildConfiguration\<close> merges the defaults ID, WIDTH, HEIGHT, AUDIO,
  IMAGE with the caller's options, and the caller's value wins where a key is in both: for
  every key, the merged object holds the caller's value when the caller gives one, and the
  default otherwise. With no caller options and a screen of 1024 by 768 the string is
  exactly \<^verbatim>\<open>WIDTH=1024&HEIGHT=768&AUDIO=audio/L16&IMAGE=image/png\<close>: the defaults in their
  order, the slash left as it is, and no ID, whose value is null. With the caller's options
  \<^verbatim>\<open>{WIDTH: 800}\<close> the value of WIDTH in the string is 800, whatever the screen.
\<close>

theorem configuration_merge:
  "(distinct (map fst (options c)) \<longrightarrow>
      map_of (merged_options screen c) k =
        (case map_of (options c) k of
           Some v \<Rightarrow> Some v
         | None \<Rightarrow> map_of (default_options (calculateDimensions screen)) k)) \<and>
   map fst (default_options (calculateDimensions screen)) =
     [''ID'', ''WIDTH'', ''HEIGHT'', ''AUDIO'', ''IMAGE''] \<and>
   (toStr 1024 = ''1024'' \<and> toStr 768 = ''768'' \<longrightarrow>
      buildConfiguration toStr \<lparr>height = 768, width = 1024\<rparr> (new_client url []) =
        Inr ''WIDTH=1024&HEIGHT=768&AUDIO=audio/L16&IMAGE=image/png'') \<and>
   (toStr 800 = ''800'' \<longrightarrow>
      buildConfiguration toStr screen (new_client url [(''WIDTH'', JNum 800)]) =
        Inr (''WIDTH=800&HEIGHT='' @ standardEncoding (toStr (height screen)) @
             ''&AUDIO=audio/L16&IMAGE=image/png''))"
proof -
  have merge: "map_of (merged_options screen c) k =
        (case map_of (options c) k of
           Some v \<Rightarrow> Some v
         | None \<Rightarrow> map_of (default_options (calculateDimensions screen)) k)"
    if "distinct (map fst (options c))"
    using that by (simp add: merged_options_def map_of_obj_spread map_add_def)
  have keys: "map fst (default_options (calculateDimensions screen)) =
     [''ID'', ''WIDTH'', ''HEIGHT'', ''AUDIO'', ''IMAGE'']"
    by (simp add: default_options_def)
  have none: "buildConfiguration toStr \<lparr>height = 768, width = 1024\<rparr> (new_client url []) =
        Inr ''WIDTH=1024&HEIGHT=768&AUDIO=audio/L16&IMAGE=image/png''"
    if "toStr 1024 = ''1024'' \<and> toStr 768 = ''768''"
    using that
      buildConfiguration_no_options [of "new_client url []" toStr "\<lparr>height = 768, width = 1024\<rparr>"]
    by (simp add: new_client_def encodings)
  have w800: "buildConfiguration toStr screen (new_client url [(''WIDTH'', JNum 800)]) =
        Inr (''WIDTH=800&HEIGHT='' @ standardEncoding (toStr (height screen)) @
             ''&AUDIO=audio/L16&IMAGE=image/png'')"
    if "toStr 800 = ''800''"
    using that
      buildConfiguration_width_800 [of "new_client url [(''WIDTH'', JNum 800)]" toStr screen]
    by (simp add: new_client_def)
  show ?thesis
    using merge keys none w800 by blast
qed

text \<open>
  The theorem at the caller's options \<^verbatim>\<open>{WIDTH: 800, DPI: 96}\<close>, whose keys are distinct, and
  at the two examples of the claim, with numbers written in decimal.
\<close>

theorem configuration_merge_witness:
  "distinct (map fst [(''WIDTH'', JNum 800), (''DPI'', JNum 96)]) \<and>
   map_of (merged_options \<lparr>height = 768, width = 1024\<rparr>
     (new_client ''ws://host'' [(''WIDTH'', JNum 800), (''DPI'', JNum 96)])) ''WIDTH'' =
     Some (JNum 800) \<and>
   map_of (merged_options \<lparr>height = 768, width = 1024\<rparr>
     (new_client ''ws://host'' [(''WIDTH'', JNum 800), (''DPI'', JNum 96)])) ''HEIGHT'' =
     Some (JNum 768) \<and>
   show_int 1024 = ''1024'' \<and> show_int 768 = ''768'' \<and> show_int 800 = ''800'' \<and>
   buildConfiguration show_int \<lparr>height = 768, width = 1024\<rparr> (new_client ''ws://host'' []) =
     Inr ''WIDTH=1024&HEIGHT=768&AUDIO=audio/L16&IMAGE=image/png'' \<and>
   buildConfiguration show_int \<lparr>height = 768, width = 1024\<rparr>
     (new_client ''ws://host'' [(''WIDTH'', JNum 800)]) =
     Inr ''WIDTH=800&HEIGHT=768&AUDIO=audio/L16&IMAGE=image/png''"
  using
    configuration_merge [of "new_client ''ws://host'' [(''WIDTH'', JNum 800), (''DPI'', JNum 96)]"
      "\<lparr>height = 768, width = 1024\<rparr>" "''WIDTH''" show_int "''ws://host''"]
    configuration_merge [of "new_client ''ws://host'' [(''WIDTH'', JNum 800), (''DPI'', JNum 96)]"
      "\<lparr>height = 768, width = 1024\<rparr>" "''HEIGHT''" show_int "''ws://host''"]
  by (simp add: new_client_def default_options_def calculateDimensions_def show_int_examples
      encodings)

text \<open>
  Against the claim as stated: with no caller options and a screen of 1024 by 768 the
  string does not contain \<^verbatim>\<open>WIDTH=1024&HEIGHT=768&AUDIO=audio%2FL16&IMAGE=image%2Fpng\<close>.
\<close>

theorem configuration_slash_unescaped:
  "buildConfiguration show_int \<lparr>height = 768, width = 1024\<rparr> (new_client ''ws://host'' []) =
     Inr ''WIDTH=1024&HEIGHT=768&AUDIO=audio/L16&IMAGE=image/png'' \<and>
   \<not> contains ''WIDTH=1024&HEIGHT=768&AUDIO=audio%2FL16&IMAGE=image%2Fpng''
       ''WIDTH=1024&HEIGHT=768&AUDIO=audio/L16&IMAGE=image/png''"
  by code_simp

subsection \<open>What a new subscriber receives\<close>

lemma in_step_new_client: "in_step (new_client url opts)"
  by (simp add: in_step_def new_client_def BehaviorSubject_def ReplaySubject_def)

lemma in_step_setState: "in_step c \<Longrightarrow> in_step (setState s c)"
  by (simp add: in_step_def setState_def subject_next_def published_states_append
      published_clipboard_append)

lemma in_step_engine_fields:
  "in_step (c\<lparr>engineState := code\<rparr>) = in_step c"
  "in_step (c\<lparr>tunnelState := code\<rparr>) = in_step c"
  "in_step (c\<lparr>socket := b\<rparr>) = in_step c"
  "in_step (c\<lparr>handlersBound := b\<rparr>) = in_step c"
  by (simp_all add: in_step_def)

lemma in_step_callbacks:
  "in_step c \<Longrightarrow> in_step (client_onstatechange code c)"
  "in_step c \<Longrightarrow> in_step (tunnel_onstatechange code c)"
  by (simp_all add: client_onstatechange_def tunnel_onstatechange_def
      handleClientStateChange_def handleTunnelStateChange_def in_step_setState)

lemma in_step_Client_setState: "in_step c \<Longrightarrow> in_step (Client_setState code c)"
  by (simp add: Client_setState_def in_step_callbacks in_step_engine_fields)

lemma in_step_disconnect: "in_step c \<Longrightarrow> in_step (snd (disconnect c))"
  by (simp add: in_step_def disconnect_effects disconnect_state disconnect_onStateChange
      disconnect_frame subject_next_def published_states_append published_clipboard_append)

lemma in_step_sendClipboard: "in_step c \<Longrightarrow> in_step (sendClipboard text c)"
  by (cases "text")
    (simp_all add: in_step_def sendClipboard_def subject_next_def published_states_append
      published_clipboard_append)

lemma in_step_reader_onend: "in_step c \<Longrightarrow> in_step (reader_onend stream rs c)"
  by (cases "rs stream")
    (simp_all add: in_step_def reader_onend_def subject_next_def published_states_append
      published_clipboard_append)

lemma in_step_connect: "in_step c \<Longrightarrow> in_step (snd (connect toStr screen c))"
proof (cases "buildConfiguration toStr screen c")
  case (Inl e)
  assume "in_step c"
  with Inl show ?thesis by (simp add: connect_def)
next
  case (Inr configuration)
  assume "in_step c"
  then have "in_step (c\<lparr>effects := effects c @ [ClientConnect configuration]\<rparr>)"
    by (simp add: in_step_def published_states_append published_clipboard_append)
  then have "in_step (Client_connect (c\<lparr>effects := effects c @ [ClientConnect configuration]\<rparr>))"
    by (simp add: Client_connect_def in_step_Client_setState in_step_engine_fields)
  with Inr show ?thesis
    by (simp add: connect_def bindEventHandlers_def in_step_engine_fields)
qed

lemma in_step_subscribe:
  "in_step c \<Longrightarrow> in_step (c\<lparr>onStateChange := subscribe (onStateChange c)\<rparr>)"
  "in_step c \<Longrightarrow> in_step (c\<lparr>onClipboard := subscribe (onClipboard c)\<rparr>)"
  by (simp_all add: in_step_def subscribe_def)

lemma in_step_handlers:
  "in_step c \<Longrightarrow> in_step (snd (handleClientError status c))"
  "in_step c \<Longrightarrow> in_step (snd (handleTunnelError status c))"
  by (simp_all add: handleClientError_cases handleTunnelError_cases in_step_setState
      in_step_disconnect)

lemma in_step_step: "in_step (rdc w) \<Longrightarrow> in_step (rdc (step toStr ev w))"
  by (cases ev)
    (simp_all add: in_step_handlers in_step_connect in_step_disconnect in_step_sendClipboard
      in_step_reader_onend in_step_subscribe in_step_callbacks in_step_engine_fields)

lemma in_step_run: "in_step (rdc w) \<Longrightarrow> in_step (rdc (run toStr evs w))"
proof (induction evs arbitrary: w)
  case Nil
  then show ?case by (simp add: run_Nil)
next
  case (Cons ev evs)
  then show ?case by (simp add: run_Cons in_step_step)
qed

lemma in_step_reachable: "in_step (rdc (run toStr evs (new_world url opts)))"
  by (rule in_step_run) (simp add: new_world_def in_step_new_client)

lemma newest_received_subscribe: "newest_received (subscribe s) = buffer s"
  by (simp add: newest_received_def subscribe_def)

text \<open>
  Claim C8. A subscriber to the state channel of a fresh client, before any event,
  immediately receives exactly one value, Connecting (not Idle). After any sequence of
  events, a new subscriber immediately receives exactly one value: the most recently
  published state, or Connecting when no state has been published yet. The replay depth is
  exactly 1.
\<close>

theorem state_channel_replay:
  "newest_received (onStateChange (rdc (run toStr [SubscribeState] (new_world url opts)))) =
     [CONNECTING] \<and>
   newest_received (onStateChange (rdc (run toStr (evs @ [SubscribeState]) (new_world url opts)))) =
     [last (CONNECTING # published_states (effects (rdc (run toStr evs (new_world url opts)))))]"
proof -
  have "newest_received (onStateChange (rdc (run toStr (evs' @ [SubscribeState]) (new_world url opts)))) =
     [last (CONNECTING # published_states (effects (rdc (run toStr evs' (new_world url opts)))))]"
    for evs'
    using in_step_reachable [of toStr evs' url opts]
    by (simp add: run_append run_Cons run_Nil newest_received_subscribe in_step_def)
  from this [of "[]"] this [of evs] show ?thesis
    by (simp add: run_Nil new_world_def new_client_def)
qed

text \<open>
  The theorem on a run: one subscriber at the start, a connection that reaches Connected,
  and a second subscriber, who receives Connected alone.
\<close>

theorem state_channel_replay_example:
  "newest_received (onStateChange (rdc (run show_int
      [SubscribeState, CallConnect \<lparr>height = 768, width = 1024\<rparr>, TunnelOnStateChange 1,
       ClientOnStateChange 1, ClientOnStateChange 2, ClientOnStateChange 3, SubscribeState]
      (new_world ''ws://host'' [])))) = [CONNECTED]"
proof -
  have published: "published_states (effects (rdc (run show_int
      [SubscribeState, CallConnect \<lparr>height = 768, width = 1024\<rparr>, TunnelOnStateChange 1,
       ClientOnStateChange 1, ClientOnStateChange 2, ClientOnStateChange 3]
      (new_world ''ws://host'' [])))) = [CONNECTING, WAITING, CONNECTED]"
    by code_simp
  show ?thesis
    using state_channel_replay [of show_int "''ws://host''" "[]"
        "[SubscribeState, CallConnect \<lparr>height = 768, width = 1024\<rparr>, TunnelOnStateChange 1,
         ClientOnStateChange 1, ClientOnStateChange 2, ClientOnStateChange 3]"]
      published
    by simp
qed

text \<open>
  Claim C9. A subscriber to the clipboard channel of a fresh client receives nothing on
  subscribing. After any sequence of events, a new subscriber immediately receives nothing
  when no payload has been published yet, and otherwise exactly one value, the most
  recently published payload.
\<close>

theorem clipboard_channel_replay:
  "newest_received (onClipboard (rdc (run toStr [SubscribeClipboard] (new_world url opts)))) = [] \<and>
   newest_received (onClipboard (rdc (run toStr (evs @ [SubscribeClipboard]) (new_world url opts)))) =
     (if published_clipboard (effects (rdc (run toStr evs (new_world url opts)))) = [] then []
      else [last (published_clipboard (effects (rdc (run toStr evs (new_world url opts)))))])"
proof -
  have "newest_received (onClipboard (rdc (run toStr (evs' @ [SubscribeClipboard]) (new_world url opts)))) =
     (if published_clipboard (effects (rdc (run toStr evs' (new_world url opts)))) = [] then []
      else [last (published_clipboard (effects (rdc (run toStr evs' (new_world url opts)))))])"
    for evs'
    using in_step_reachable [of toStr evs' url opts]
    by (simp add: run_append run_Cons run_Nil newest_received_subscribe in_step_def)
  from this [of "[]"] this [of evs] show ?thesis
    by (simp add: run_Nil new_world_def new_client_def)
qed


text \<open>
  The theorem on a run: a payload sent by the caller, then a payload assembled from a
  stream; a subscriber who arrives afterwards receives the second alone.
\<close>

theorem clipboard_channel_replay_example:
  "newest_received (onClipboard (rdc (run show_int
      [CallSendClipboard (Some ''first''), CallConnect \<lparr>height = 768, width = 1024\<rparr>,
       ClientOnClipboard 4 ''text/html'', ReaderOnText 4 ''sec'', ReaderOnText 4 ''ond'',
       ReaderOnEnd 4, SubscribeClipboard]
      (new_world ''ws://host'' [])))) = [''second'']"
proof -
  have published: "published_clipboard (effects (rdc (run show_int
      [CallSendClipboard (Some ''first''), CallConnect \<lparr>height = 768, width = 1024\<rparr>,
       ClientOnClipboard 4 ''text/html'', ReaderOnText 4 ''sec'', ReaderOnText 4 ''ond'',
       ReaderOnEnd 4]
      (new_world ''ws://host'' [])))) = [''first'', ''second'']"
    by code_simp
  show ?thesis
    using clipboard_channel_replay [of show_int "''ws://host''" "[]"
        "[CallSendClipboard (Some ''first''), CallConnect \<lparr>height = 768, width = 1024\<rparr>,
         ClientOnClipboard 4 ''text/html'', ReaderOnText 4 ''sec'', ReaderOnText 4 ''ond'',
         ReaderOnEnd 4]"]
      published
    by simp
qed

subsection \<open>The queried state and the state channel\<close>

text \<open>
  Claim C10. On a fresh client \<^verbatim>\<open>getState()\<close> returns Idle and \<^verbatim>\<open>isState(Idle)\<close> holds,
  while the state channel replays Connecting to a subscriber. After any sequence of events,
  \<^verbatim>\<open>getState()\<close> is the last published state, or Idle when none has been published, and the
  channel replays the last published state, or Connecting when none has been published: the
  two differ exactly until the first publication. After \<^verbatim>\<open>setState(s)\<close> on any client so
  reached, \<^verbatim>\<open>getState()\<close> is \<open>s\<close>, the last value published is \<open>s\<close>, and the channel
  replays \<open>s\<close>.
\<close>

theorem queried_state_and_channel:
  "getState (new_client url opts) = IDLE \<and>
   isState IDLE (new_client url opts) \<and>
   newest_received (subscribe (onStateChange (new_client url opts))) = [CONNECTING] \<and>
   getState (rdc (run toStr evs (new_world url opts))) =
     last (IDLE # published_states (effects (rdc (run toStr evs (new_world url opts))))) \<and>
   newest_received (subscribe (onStateChange (rdc (run toStr evs (new_world url opts))))) =
     [last (CONNECTING # published_states (effects (rdc (run toStr evs (new_world url opts)))))] \<and>
   getState (setState s (rdc (run toStr evs (new_world url opts)))) = s \<and>
   newest_received (subscribe (onStateChange (setState s (rdc (run toStr evs (new_world url opts)))))) =
     [s] \<and>
   last (published_states (effects (setState s (rdc (run toStr evs (new_world url opts)))))) = s"
proof -
  define c where "c = rdc (run toStr evs (new_world url opts))"
  have reach: "in_step c"
    unfolding c_def by (rule in_step_reachable)
  have fresh: "getState (new_client url opts) = IDLE \<and> isState IDLE (new_client url opts) \<and>
      newest_received (subscribe (onStateChange (new_client url opts))) = [CONNECTING]"
    by (simp add: getState_def isState_def new_client_def BehaviorSubject_def
        newest_received_subscribe)
  have before: "getState c = last (IDLE # published_states (effects c)) \<and>
      newest_received (subscribe (onStateChange c)) =
        [last (CONNECTING # published_states (effects c))]"
    using reach by (simp add: in_step_def getState_def newest_received_subscribe)
  have after: "getState (setState s c) = s \<and>
      newest_received (subscribe (onStateChange (setState s c))) = [s] \<and>
      last (published_states (effects (setState s c))) = s"
    using in_step_setState [OF reach, of s]
    by (simp add: in_step_def getState_def newest_received_subscribe)
      (simp add: setState_def published_states_append)
  show ?thesis
    using fresh before after unfolding c_def by blast
qed

end
